theory Spec2Isabelle
  imports Main "HOL-Library.Multiset"
begin

section \<open>Values that cross the HTTP boundary\<close>

text \<open>
  A request body is what \<open>express.json()\<close> leaves in \<open>req.body\<close>: a JSON value, or
  \<open>undefined\<close> (here \<open>None\<close>) when no JSON body was parsed. An object is kept as the list
  of its members and read by key with \<open>map_of\<close>. A JavaScript string is the list of its
  code units, so \<open>length\<close> is the \<open>.length\<close> that the validator compares. Of a number
  only its type tag is ever inspected.
\<close>

datatype json =
    JNull
  | JBool bool
  | JNum int
  | JStr string
  | JArr "json list"
  | JObj "(string \<times> json) list"

text \<open>The type tags the validator reports in an \<open>invalid_type\<close> issue.\<close>

datatype parsed_type = TUndefined | TNull | TBoolean | TNumber | TString | TArray | TObject

fun getParsedType :: "json option \<Rightarrow> parsed_type" where
  "getParsedType None = TUndefined"
| "getParsedType (Some JNull) = TNull"
| "getParsedType (Some (JBool b)) = TBoolean"
| "getParsedType (Some (JNum n)) = TNumber"
| "getParsedType (Some (JStr s)) = TString"
| "getParsedType (Some (JArr xs)) = TArray"
| "getParsedType (Some (JObj kvs)) = TObject"

section \<open>The schema validator of \<open>routes/items.js\<close>\<close>

text \<open>
  \<open>const CreateItem = z.object({ title: z.string().min(1).max(200) })\<close>.
  An issue carries its code and the path of the offending field; \<open>invalid_type\<close> names
  the expected and the received type, \<open>too_small\<close> and \<open>too_big\<close> the bound.
\<close>

datatype issue_code =
    invalid_type parsed_type parsed_type
  | too_small nat
  | too_big nat

record zod_issue =
  code :: issue_code
  path :: "string list"

text \<open>
  \<open>z.string().min(1).max(200)\<close> at a given path: a value that is not a string is one
  \<open>invalid_type\<close> issue; on a string every length check runs, \<open>min\<close> first.
\<close>

definition string_min_max :: "string list \<Rightarrow> json option \<Rightarrow> zod_issue list + string" where
  "string_min_max p v =
     (case v of
        Some (JStr s) \<Rightarrow>
          (let issues =
                 (if length s < 1 then [\<lparr>code = too_small 1, path = p\<rparr>] else []) @
                 (if length s > 200 then [\<lparr>code = too_big 200, path = p\<rparr>] else [])
           in if issues = [] then Inr s else Inl issues)
      | _ \<Rightarrow> Inl [\<lparr>code = invalid_type TString (getParsedType v), path = p\<rparr>])"

text \<open>
  \<open>CreateItem.safeParse(req.body)\<close>. Anything but an object fails at the root. Of an
  object only the key of the schema is read, and the parsed data is a new object holding
  that key alone (the library's default for unknown keys is to strip them).
\<close>

definition CreateItem_safeParse :: "json option \<Rightarrow> zod_issue list + (string \<times> json) list" where
  "CreateItem_safeParse input =
     (case input of
        Some (JObj kvs) \<Rightarrow>
          (case string_min_max [''title''] (map_of kvs ''title'') of
             Inl issues \<Rightarrow> Inl issues
           | Inr t \<Rightarrow> Inr [(''title'', JStr t)])
      | _ \<Rightarrow> Inl [\<lparr>code = invalid_type TObject (getParsedType input), path = []\<rparr>])"

text \<open>
  \<open>parsed.error.format()\<close>: a tree with the issues of the value itself under
  \<open>_errors\<close> and one subtree per field that has issues. Each issue is filed by walking
  its path, creating the nodes that are not there yet.
\<close>

datatype zod_formatted = Formatted (errors: "issue_code list") (fields: "(string \<times> zod_formatted) list")

definition field_of :: "string \<Rightarrow> zod_formatted \<Rightarrow> zod_formatted option" where
  "field_of k f = map_of (fields f) k"

fun put_field :: "string \<Rightarrow> zod_formatted \<Rightarrow> (string \<times> zod_formatted) list \<Rightarrow> (string \<times> zod_formatted) list" where
  "put_field k v [] = [(k, v)]"
| "put_field k v ((k', v') # kvs) = (if k = k' then (k, v) # kvs else (k', v') # put_field k v kvs)"

fun file_issue :: "string list \<Rightarrow> issue_code \<Rightarrow> zod_formatted \<Rightarrow> zod_formatted" where
  "file_issue [] c f = Formatted (errors f @ [c]) (fields f)"
| "file_issue (k # ks) c f =
     Formatted (errors f)
       (put_field k
          (file_issue ks c (case field_of k f of None \<Rightarrow> Formatted [] [] | Some sub \<Rightarrow> sub))
          (fields f))"

definition format :: "zod_issue list \<Rightarrow> zod_formatted" where
  "format issues = fold (\<lambda>i f. file_issue (path i) (code i) f) issues (Formatted [] [])"

section \<open>The persistence accessor\<close>

text \<open>
  Modelled from the spec: the \<open>Item\<close> table, whose declaration (\<open>prisma/schema.prisma\<close>)
  is not among the sources. A row has an \<open>id\<close> that is generated at creation and
  identifies exactly one row, the \<open>title\<close>, and \<open>createdAt\<close>, set at creation. The
  table is the list of its rows in insertion order; a timestamp is a number of
  milliseconds. The database is PostgreSQL (the repository's planning document), whose
  text columns hold every string but those with the code unit 0.
\<close>

record item =
  item_id :: string
  title :: string
  createdAt :: int

type_synonym item_table = "item list"

text \<open>
  What a single call of the client depends on besides the table: the clock that fills
  \<open>createdAt\<close>, the identifier generated for an insert, whether the database can be
  reached (\<open>Some m\<close>: every query of this call is rejected with the message \<open>m\<close>), and
  the order in which the database happens to meet the rows when it reads the table for
  this call (\<open>scan\<close>, a list of ids: the rows it names come in that order, the rows it
  does not name come after them, in table order).
\<close>

record db_env =
  now :: int
  new_id :: string
  db_down :: "string option"
  scan :: "string list"

datatype prisma_error =
    ConnectionError string
  | ValidationError
  | CharacterNotInRepertoire
  | UniqueConstraintViolation string

text \<open>What an error prints as: the text that ends up in its stack trace.\<close>

fun error_stack :: "prisma_error \<Rightarrow> string" where
  "error_stack (ConnectionError m) = m"
| "error_stack ValidationError = ''PrismaClientValidationError''"
| "error_stack CharacterNotInRepertoire = ''invalid byte sequence for encoding UTF8: 0x00''"
| "error_stack (UniqueConstraintViolation f) = ''Unique constraint failed on the fields: '' @ f"

text \<open>Where a value stands in a list; the length of the list when it is not there.\<close>

fun position :: "'a \<Rightarrow> 'a list \<Rightarrow> nat" where
  "position x [] = 0"
| "position x (y # ys) = (if x = y then 0 else Suc (position x ys))"

text \<open>
  \<open>orderBy: { createdAt: "desc" }\<close>: the rows as the database meets them, sorted by
  \<open>createdAt\<close>, newest first. The query names no second key, so rows of equal
  \<open>createdAt\<close> stay in the order in which they were met, which the database is free
  to change from one query to the next.
\<close>

definition orderBy_createdAt_desc :: "string list \<Rightarrow> item list \<Rightarrow> item list" where
  "orderBy_createdAt_desc met tbl =
     sort_key (\<lambda>i. - createdAt i) (sort_key (\<lambda>i. position (item_id i) met) tbl)"

text \<open>
  \<open>prisma.item.findMany({ orderBy: { createdAt: "desc" } })\<close>: all rows, newest first.
\<close>

definition item_findMany :: "db_env \<Rightarrow> item_table \<Rightarrow> prisma_error + item list" where
  "item_findMany env tbl =
     (case db_down env of
        Some m \<Rightarrow> Inl (ConnectionError m)
      | None \<Rightarrow> Inr (orderBy_createdAt_desc (scan env) tbl))"

text \<open>\<open>prisma.item.count()\<close>.\<close>

definition item_count :: "db_env \<Rightarrow> item_table \<Rightarrow> prisma_error + nat" where
  "item_count env tbl =
     (case db_down env of
        Some m \<Rightarrow> Inl (ConnectionError m)
      | None \<Rightarrow> Inr (length tbl))"

text \<open>
  \<open>prisma.item.create({ data })\<close>. The callers in the sources pass an object whose only
  member is a string \<open>title\<close>; any other shape of \<open>data\<close> is refused by the client
  before a query is sent. The database refuses a title that holds the code unit 0, and
  it refuses the insert when the id is already taken. Otherwise the row gets the
  generated id and the current time, and the stored row is returned.
\<close>

definition item_create :: "db_env \<Rightarrow> item_table \<Rightarrow> (string \<times> json) list \<Rightarrow> prisma_error + (item_table \<times> item)" where
  "item_create env tbl data =
     (case data of
        [(k, JStr t)] \<Rightarrow>
          if k \<noteq> ''title'' then Inl ValidationError
          else (case db_down env of
                  Some m \<Rightarrow> Inl (ConnectionError m)
                | None \<Rightarrow>
                    if CHR 0x00 \<in> set t then Inl CharacterNotInRepertoire
                    else if new_id env \<in> set (map item_id tbl)
                    then Inl (UniqueConstraintViolation ''id'')
                    else (let row = \<lparr>item_id = new_id env, title = t, createdAt = now env\<rparr>
                          in Inr (tbl @ [row], row)))
      | _ \<Rightarrow> Inl ValidationError)"

section \<open>The HTTP handlers of \<open>routes/items.js\<close>\<close>

text \<open>
  A handler either sends a response or, having no \<open>try\<close>/\<open>catch\<close>, lets the error of
  the client escape: its promise is rejected and nothing has been sent. Either way the
  table it leaves behind is returned with the outcome.
\<close>

datatype body =
    Items "item list"
  | Created item
  | Invalid zod_formatted
  | Message string
  | Text string

record response =
  status :: nat
  body :: body

datatype outcome = Sent response | Rejected prisma_error

text \<open>
  \<open>r.get("/", ...)\<close>: \<open>findMany\<close>, then \<open>res.json(items)\<close> with the default status.
\<close>

definition r_get :: "db_env \<Rightarrow> item_table \<Rightarrow> item_table \<times> outcome" where
  "r_get env tbl =
     (case item_findMany env tbl of
        Inl e \<Rightarrow> (tbl, Rejected e)
      | Inr items \<Rightarrow> (tbl, Sent \<lparr>status = 200, body = Items items\<rparr>))"

text \<open>
  \<open>r.post("/", ...)\<close>: validate; on failure answer 400 with the formatted error and
  return; otherwise create from the parsed data and answer 201 with the stored row.
\<close>

definition r_post :: "db_env \<Rightarrow> item_table \<Rightarrow> json option \<Rightarrow> item_table \<times> outcome" where
  "r_post env tbl req_body =
     (case CreateItem_safeParse req_body of
        Inl issues \<Rightarrow> (tbl, Sent \<lparr>status = 400, body = Invalid (format issues)\<rparr>)
      | Inr data \<Rightarrow>
          (case item_create env tbl data of
             Inl e \<Rightarrow> (tbl, Rejected e)
           | Inr (tbl', item) \<Rightarrow> (tbl', Sent \<lparr>status = 201, body = Created item\<rparr>)))"

section \<open>The application of \<open>index.js\<close>\<close>

text \<open>
  \<open>const allowedOrigins = [process.env.FRONTEND_ORIGIN || "http://localhost:3000"]\<close>:
  an unset or empty variable gives the default.
\<close>

definition allowedOrigins :: "string option \<Rightarrow> string list" where
  "allowedOrigins FRONTEND_ORIGIN =
     [case FRONTEND_ORIGIN of
        None \<Rightarrow> ''http://localhost:3000''
      | Some v \<Rightarrow> if v = [] then ''http://localhost:3000'' else v]"

text \<open>
  The \<open>origin(origin, cb)\<close> callback given to \<open>cors\<close>. Its argument is the request's
  \<open>Origin\<close> header, \<open>undefined\<close> when there is none. The result is what it passes to
  \<open>cb\<close>: \<open>Inr True\<close> for \<open>cb(null, true)\<close>, \<open>Inl m\<close> for \<open>cb(new Error(m))\<close>.
\<close>

definition origin :: "string option \<Rightarrow> string option \<Rightarrow> string + bool" where
  "origin FRONTEND_ORIGIN origin_header =
     (case origin_header of
        None \<Rightarrow> Inr True
      | Some v \<Rightarrow>
          if v = [] then Inr True
          else if v \<in> set (allowedOrigins FRONTEND_ORIGIN) then Inr True
          else Inl ''Not allowed by CORS'')"

text \<open>
  The file registers the routers and, last, a two-argument handler for unmatched routes;
  it registers no error-handling middleware. The handlers are \<open>async\<close>, and the
  framework (Express 5, as the repository's planning document has it) passes the
  rejection of a handler on as an error. With no error-handling middleware in the
  application, the error reaches the framework's built-in handler, which answers 500
  (the errors of the database client carry no status of their own, and no status has
  been set on the response yet) with the stack trace of the error, or with the bare
  status text when the stack is empty or \<open>NODE_ENV\<close> is \<open>production\<close>.
\<close>

definition finalhandler :: "string option \<Rightarrow> prisma_error \<Rightarrow> response" where
  "finalhandler NODE_ENV err =
     (let msg = (if NODE_ENV \<noteq> Some ''production'' then error_stack err else [])
      in \<lparr>status = 500, body = Text (if msg = [] then ''Internal Server Error'' else msg)\<rparr>)"

text \<open>
  The application on a request that the middlewares have let through, as far as the
  item routes go: the router mounted at \<open>/api/items\<close>, the handler for unmatched
  routes, and the built-in error handler behind them.
\<close>

datatype request = GET_api_items | POST_api_items "json option" | Unmatched

definition app :: "string option \<Rightarrow> db_env \<Rightarrow> item_table \<Rightarrow> request \<Rightarrow> item_table \<times> response" where
  "app NODE_ENV env tbl req =
     (case req of
        Unmatched \<Rightarrow> (tbl, \<lparr>status = 404, body = Message ''Route not found''\<rparr>)
      | _ \<Rightarrow>
          (case (case req of GET_api_items \<Rightarrow> r_get env tbl | POST_api_items b \<Rightarrow> r_post env tbl b) of
             (tbl', Sent res) \<Rightarrow> (tbl', res)
           | (tbl', Rejected err) \<Rightarrow> (tbl', finalhandler NODE_ENV err)))"

section \<open>The seed script \<open>prisma/seed.mjs\<close>\<close>

datatype seed_log = Seeded | AlreadyPresent nat | SeedFailed prisma_error

text \<open>
  \<open>main()\<close>: count; insert the welcome item when the count is zero, otherwise only log
  the count. An error of the client ends the script with \<open>Seed failed\<close>. The two
  queries are two calls of the client, each with its own environment: \<open>envc\<close> for the
  count, \<open>env\<close> for the insert.
\<close>

definition main :: "db_env \<Rightarrow> db_env \<Rightarrow> item_table \<Rightarrow> item_table \<times> seed_log" where
  "main envc env tbl =
     (case item_count envc tbl of
        Inl e \<Rightarrow> (tbl, SeedFailed e)
      | Inr cnt \<Rightarrow>
          if cnt = 0
          then (case item_create env tbl [(''title'', JStr ''Welcome to ESDA'')] of
                  Inl e \<Rightarrow> (tbl, SeedFailed e)
                | Inr (tbl', item) \<Rightarrow> (tbl', Seeded))
          else (tbl, AlreadyPresent cnt))"

text \<open>
  The states the table can be in: it starts empty and changes only through the two
  handlers and the seed script, each run in any environment and on any request body.
\<close>

inductive reachable :: "item_table \<Rightarrow> bool" where
  start: "reachable []"
| by_get: "reachable tbl \<Longrightarrow> reachable (fst (r_get env tbl))"
| by_post: "reachable tbl \<Longrightarrow> reachable (fst (r_post env tbl req_body))"
| by_seed: "reachable tbl \<Longrightarrow> reachable (fst (main envc env tbl))"

definition title_ok :: "item \<Rightarrow> bool" where
  "title_ok i \<longleftrightarrow> 1 \<le> length (title i) \<and> length (title i) \<le> 200"

section \<open>Facts about the validator, the accessor and the handlers\<close>

lemma safeParse_Inr_iff:
  "CreateItem_safeParse b = Inr data \<longleftrightarrow>
     (\<exists>kvs t. b = Some (JObj kvs) \<and> map_of kvs ''title'' = Some (JStr t) \<and>
        1 \<le> length t \<and> length t \<le> 200 \<and> data = [(''title'', JStr t)])"
  by (auto simp: CreateItem_safeParse_def string_min_max_def Let_def Suc_le_eq
      split: option.splits json.splits sum.splits if_splits)

lemma safeParse_valid:
  "map_of kvs ''title'' = Some (JStr t) \<Longrightarrow> 1 \<le> length t \<Longrightarrow> length t \<le> 200 \<Longrightarrow>
   CreateItem_safeParse (Some (JObj kvs)) = Inr [(''title'', JStr t)]"
  by (simp add: safeParse_Inr_iff)

lemma item_create_title:
  "item_create env tbl [(''title'', JStr t)] =
     (case db_down env of
        Some m \<Rightarrow> Inl (ConnectionError m)
      | None \<Rightarrow>
          if CHR 0x00 \<in> set t then Inl CharacterNotInRepertoire
          else if new_id env \<in> set (map item_id tbl) then Inl (UniqueConstraintViolation ''id'')
          else Inr (tbl @ [\<lparr>item_id = new_id env, title = t, createdAt = now env\<rparr>],
                    \<lparr>item_id = new_id env, title = t, createdAt = now env\<rparr>))"
  by (simp add: item_create_def Let_def split: option.splits)

lemma sorted_desc:
  "sorted (map (\<lambda>i. - createdAt i) xs) \<Longrightarrow> sorted_wrt (\<ge>) (map createdAt xs)"
  by (induction xs) auto

lemma findMany_up:
  "db_down env = None \<Longrightarrow> item_findMany env tbl = Inr (orderBy_createdAt_desc (scan env) tbl)"
  by (simp add: item_findMany_def)

lemma r_get_up:
  "db_down env = None \<Longrightarrow>
   r_get env tbl =
     (tbl, Sent \<lparr>status = 200, body = Items (orderBy_createdAt_desc (scan env) tbl)\<rparr>)"
  by (simp add: r_get_def findMany_up)

lemma r_get_table: "fst (r_get env tbl) = tbl"
  by (simp add: r_get_def split: sum.splits)

lemma r_post_valid:
  "map_of kvs ''title'' = Some (JStr t) \<Longrightarrow> 1 \<le> length t \<Longrightarrow> length t \<le> 200 \<Longrightarrow>
   r_post env tbl (Some (JObj kvs)) =
     (case item_create env tbl [(''title'', JStr t)] of
        Inl e \<Rightarrow> (tbl, Rejected e)
      | Inr (tbl', row) \<Rightarrow> (tbl', Sent \<lparr>status = 201, body = Created row\<rparr>))"
  by (simp add: r_post_def safeParse_valid)

lemma r_post_created:
  "map_of kvs ''title'' = Some (JStr t) \<Longrightarrow> 1 \<le> length t \<Longrightarrow> length t \<le> 200 \<Longrightarrow>
   CHR 0x00 \<notin> set t \<Longrightarrow> db_down env = None \<Longrightarrow> new_id env \<notin> set (map item_id tbl) \<Longrightarrow>
   r_post env tbl (Some (JObj kvs)) =
     (tbl @ [\<lparr>item_id = new_id env, title = t, createdAt = now env\<rparr>],
      Sent \<lparr>status = 201, body = Created \<lparr>item_id = new_id env, title = t, createdAt = now env\<rparr>\<rparr>)"
  by (simp add: r_post_valid item_create_title)

lemma r_post_invalid:
  "CreateItem_safeParse b = Inl issues \<Longrightarrow>
   r_post env tbl b = (tbl, Sent \<lparr>status = 400, body = Invalid (format issues)\<rparr>)"
  by (simp add: r_post_def)

lemma r_post_changes:
  assumes "fst (r_post env tbl b) \<noteq> tbl"
  shows "\<exists>t. CreateItem_safeParse b = Inr [(''title'', JStr t)] \<and> 1 \<le> length t \<and> length t \<le> 200 \<and>
             fst (r_post env tbl b) = tbl @ [\<lparr>item_id = new_id env, title = t, createdAt = now env\<rparr>]"
proof (cases "CreateItem_safeParse b")
  case (Inl issues)
  with assms show ?thesis by (simp add: r_post_def)
next
  case (Inr data)
  then obtain kvs t where t: "b = Some (JObj kvs)" "map_of kvs ''title'' = Some (JStr t)"
      "1 \<le> length t" "length t \<le> 200" "data = [(''title'', JStr t)]"
    by (auto simp: safeParse_Inr_iff)
  with assms Inr show ?thesis
    by (auto simp: r_post_def item_create_title split: option.splits if_splits)
qed

lemma main_changes:
  "fst (main envc env tbl) \<noteq> tbl \<Longrightarrow>
   tbl = [] \<and> fst (main envc env tbl) = [\<lparr>item_id = new_id env, title = ''Welcome to ESDA'', createdAt = now env\<rparr>]"
  by (auto simp: main_def item_count_def item_create_title split: option.splits if_splits sum.splits)

lemma reachable_titles: "reachable tbl \<Longrightarrow> \<forall>i\<in>set tbl. title_ok i"
proof (induction rule: reachable.induct)
  case start
  show ?case by simp
next
  case (by_get tbl env)
  then show ?case by (simp add: r_get_table)
next
  case (by_post tbl env req_body)
  show ?case
  proof (cases "fst (r_post env tbl req_body) = tbl")
    case True
    with by_post show ?thesis by simp
  next
    case False
    from r_post_changes[OF False] by_post.IH show ?thesis
      by (auto simp: title_ok_def)
  qed
next
  case (by_seed tbl envc env)
  show ?case
  proof (cases "fst (main envc env tbl) = tbl")
    case True
    with by_seed show ?thesis by simp
  next
    case False
    from main_changes[OF False, THEN conjunct2] show ?thesis
      by (simp add: title_ok_def)
  qed
qed


lemma mset_orderBy: "mset (orderBy_createdAt_desc met tbl) = mset tbl"
  by (simp add: orderBy_createdAt_desc_def)

lemma sorted_orderBy: "sorted_wrt (\<ge>) (map createdAt (orderBy_createdAt_desc met tbl))"
  unfolding orderBy_createdAt_desc_def by (rule sorted_desc) (rule sorted_sort_key)

lemma orderBy_Nil: "orderBy_createdAt_desc met [] = []"
  by (simp add: orderBy_createdAt_desc_def)





lemma format_field:
  "format [\<lparr>code = c, path = [k]\<rparr>] = Formatted [] [(k, Formatted [c] [])]"
  by (simp add: format_def field_of_def)

lemma format_root:
  "format [\<lparr>code = c, path = []\<rparr>] = Formatted [c] []"
  by (simp add: format_def)

lemma safeParse_object:
  "CreateItem_safeParse (Some (JObj kvs)) =
     (case string_min_max [''title''] (map_of kvs ''title'') of
        Inl issues \<Rightarrow> Inl issues
      | Inr t \<Rightarrow> Inr [(''title'', JStr t)])"
  by (simp add: CreateItem_safeParse_def)


lemma r_get_Items:
  "r_get env tbl = (tbl', Sent \<lparr>status = st, body = Items xs\<rparr>) \<Longrightarrow>
   tbl' = tbl \<and> st = 200 \<and> xs = orderBy_createdAt_desc (scan env) tbl"
  by (auto simp: r_get_def item_findMany_def split: option.splits)


lemma distinct_neg_createdAt:
  "distinct (map (\<lambda>i. - createdAt i) xs) = distinct (map createdAt xs)"
proof -
  have "map (\<lambda>i. - createdAt i) xs = map uminus (map createdAt xs)"
    by simp
  then show ?thesis
    by (simp only: distinct_map) (auto simp: inj_on_def)
qed

lemma orderBy_distinct_unique:
  assumes "distinct (map createdAt tbl)"
  shows "orderBy_createdAt_desc met tbl = orderBy_createdAt_desc met' tbl"
proof -
  let ?f = "\<lambda>i. - createdAt i"
  let ?xs = "orderBy_createdAt_desc met tbl"
  let ?ys = "orderBy_createdAt_desc met' tbl"
  from assms have d: "distinct (map ?f tbl)"
    by (simp only: distinct_neg_createdAt)
  then have inj: "inj_on ?f (set tbl)"
    by (simp add: distinct_map)
  have sets: "set ?xs = set tbl" "set ?ys = set tbl"
    by (simp_all add: orderBy_createdAt_desc_def)
  have mx: "mset (map ?f ?xs) = mset (map ?f tbl)"
    and my: "mset (map ?f ?ys) = mset (map ?f tbl)"
    by (simp_all add: mset_orderBy)
  from mset_eq_imp_distinct_iff [OF mx] d have dx: "distinct (map ?f ?xs)"
    by blast
  from mset_eq_imp_distinct_iff [OF my] d have dy: "distinct (map ?f ?ys)"
    by blast
  have sx: "sorted (map ?f ?xs)" and sy: "sorted (map ?f ?ys)"
    by (simp_all add: orderBy_createdAt_desc_def)
  from inj sets have "inj_on ?f (set ?xs \<union> set ?ys)"
    by simp
  from this sx dx sy dy show ?thesis
    by (rule map_sorted_distinct_set_unique) (simp add: sets)
qed

lemma r_post_appends: "\<exists>new. fst (r_post env tbl b) = tbl @ new"
proof (cases "fst (r_post env tbl b) = tbl")
  case True
  then show ?thesis by simp
next
  case False
  from r_post_changes [OF False] show ?thesis by blast
qed

lemma main_appends: "\<exists>new. fst (main envc env tbl) = tbl @ new"
proof (cases "fst (main envc env tbl) = tbl")
  case True
  then show ?thesis by simp
next
  case False
  from main_changes [OF False] show ?thesis by simp
qed

lemma r_post_keeps_titles:
  assumes "\<forall>i\<in>set tbl. title_ok i"
  shows "\<forall>i\<in>set (fst (r_post env tbl b)). title_ok i"
proof (cases "fst (r_post env tbl b) = tbl")
  case True
  with assms show ?thesis by simp
next
  case False
  from r_post_changes [OF False] assms show ?thesis
    by (auto simp: title_ok_def)
qed

lemma main_keeps_titles:
  assumes "\<forall>i\<in>set tbl. title_ok i"
  shows "\<forall>i\<in>set (fst (main envc env tbl)). title_ok i"
proof (cases "fst (main envc env tbl) = tbl")
  case True
  with assms show ?thesis by simp
next
  case False
  from main_changes [OF False, THEN conjunct2] show ?thesis
    by (simp add: title_ok_def)
qed

lemma main_nonempty: "tbl \<noteq> [] \<Longrightarrow> fst (main envc env tbl) = tbl"
  using main_changes [of envc env tbl] by blast

lemma main_empty_up:
  "db_down envc = None \<Longrightarrow> db_down env = None \<Longrightarrow>
   main envc env [] =
     ([\<lparr>item_id = new_id env, title = ''Welcome to ESDA'', createdAt = now env\<rparr>], Seeded)"
  by (simp add: main_def item_count_def item_create_title)

lemma post_milk:
  "r_post \<lparr>now = 20, new_id = ''id1'', db_down = None, scan = []\<rparr> [] (Some (JObj [(''title'', JStr ''Buy milk'')])) =
     ([\<lparr>item_id = ''id1'', title = ''Buy milk'', createdAt = 20\<rparr>],
      Sent \<lparr>status = 201, body = Created \<lparr>item_id = ''id1'', title = ''Buy milk'', createdAt = 20\<rparr>\<rparr>)"
  using r_post_created [of "[(''title'', JStr ''Buy milk'')]" "''Buy milk''"
      "\<lparr>now = 20, new_id = ''id1'', db_down = None, scan = []\<rparr>" "[]"]
  by simp

lemma reachable_milk: "reachable [\<lparr>item_id = ''id1'', title = ''Buy milk'', createdAt = 20\<rparr>]"
  using by_post [OF start, of "\<lparr>now = 20, new_id = ''id1'', db_down = None, scan = []\<rparr>"
      "Some (JObj [(''title'', JStr ''Buy milk'')])"]
  by (simp add: post_milk)

lemma app_get: "app NODE_ENV env tbl GET_api_items =
   (case r_get env tbl of
      (tbl', Sent res) \<Rightarrow> (tbl', res)
    | (tbl', Rejected err) \<Rightarrow> (tbl', finalhandler NODE_ENV err))"
  by (simp add: app_def)

lemma app_post: "app NODE_ENV env tbl (POST_api_items b) =
   (case r_post env tbl b of
      (tbl', Sent res) \<Rightarrow> (tbl', res)
    | (tbl', Rejected err) \<Rightarrow> (tbl', finalhandler NODE_ENV err))"
  by (simp add: app_def)

lemma finalhandler_status: "status (finalhandler NODE_ENV err) = 500"
  by (simp add: finalhandler_def Let_def)

lemma finalhandler_production:
  "finalhandler (Some ''production'') err = \<lparr>status = 500, body = Text ''Internal Server Error''\<rparr>"
  by (simp add: finalhandler_def)

lemma finalhandler_other:
  "NODE_ENV \<noteq> Some ''production'' \<Longrightarrow> error_stack err \<noteq> [] \<Longrightarrow>
   finalhandler NODE_ENV err = \<lparr>status = 500, body = Text (error_stack err)\<rparr>"
  by (simp add: finalhandler_def)

section \<open>The claims\<close>




text \<open>
  C2, the claim as stated fails on a body that is not an object: the array \<open>[]\<close> has
  no title, and the handler answers 400 with an error that sits at the root of the value
  and has no entry for \<open>title\<close>.
\<close>

theorem non_object_body_counterexample:
  "r_post \<lparr>now = 7, new_id = ''id9'', db_down = None, scan = []\<rparr> [] (Some (JArr [])) =
     ([], Sent \<lparr>status = 400, body = Invalid (Formatted [invalid_type TObject TArray] [])\<rparr>) \<and>
   field_of ''title'' (Formatted [invalid_type TObject TArray] []) = None"
  by (simp add: r_post_def CreateItem_safeParse_def format_def field_of_def)

text \<open>
  C2, amended. Every body that fails validation is answered 400 with the formatted error
  and the table is left as it was, whatever the environment. For a body that is an object
  the error is filed under \<open>title\<close>: a missing title and a title that is not a string
  are an \<open>invalid_type\<close> issue (for \<open>{}\<close>: expected string, received undefined), an
  empty title is \<open>too_small\<close>, a title of more than 200 characters is \<open>too_big\<close>.
  For a body that is not an object the single issue is at the root.
\<close>

theorem invalid_title_rejected:
  "(CreateItem_safeParse b = Inl issues \<longrightarrow>
      r_post env tbl b = (tbl, Sent \<lparr>status = 400, body = Invalid (format issues)\<rparr>)) \<and>
   (map_of kvs ''title'' = None \<longrightarrow>
      r_post env tbl (Some (JObj kvs)) =
        (tbl, Sent \<lparr>status = 400, body = Invalid
           (Formatted [] [(''title'', Formatted [invalid_type TString TUndefined] [])])\<rparr>)) \<and>
   (map_of kvs ''title'' = Some v \<and> (\<forall>s. v \<noteq> JStr s) \<longrightarrow>
      r_post env tbl (Some (JObj kvs)) =
        (tbl, Sent \<lparr>status = 400, body = Invalid
           (Formatted [] [(''title'', Formatted [invalid_type TString (getParsedType (Some v))] [])])\<rparr>)) \<and>
   (map_of kvs ''title'' = Some (JStr []) \<longrightarrow>
      r_post env tbl (Some (JObj kvs)) =
        (tbl, Sent \<lparr>status = 400, body = Invalid
           (Formatted [] [(''title'', Formatted [too_small 1] [])])\<rparr>)) \<and>
   (map_of kvs ''title'' = Some (JStr s) \<and> length s > 200 \<longrightarrow>
      r_post env tbl (Some (JObj kvs)) =
        (tbl, Sent \<lparr>status = 400, body = Invalid
           (Formatted [] [(''title'', Formatted [too_big 200] [])])\<rparr>)) \<and>
   r_post env tbl (Some (JObj [])) =
     (tbl, Sent \<lparr>status = 400, body = Invalid
        (Formatted [] [(''title'', Formatted [invalid_type TString TUndefined] [])])\<rparr>) \<and>
   ((\<forall>kvs. b \<noteq> Some (JObj kvs)) \<longrightarrow>
      r_post env tbl b =
        (tbl, Sent \<lparr>status = 400, body = Invalid
           (Formatted [invalid_type TObject (getParsedType b)] [])\<rparr>))"
proof (intro conjI impI)
  assume "CreateItem_safeParse b = Inl issues"
  then show "r_post env tbl b = (tbl, Sent \<lparr>status = 400, body = Invalid (format issues)\<rparr>)"
    by (rule r_post_invalid)
next
  assume "map_of kvs ''title'' = None"
  then have "CreateItem_safeParse (Some (JObj kvs)) =
      Inl [\<lparr>code = invalid_type TString TUndefined, path = [''title'']\<rparr>]"
    by (simp add: safeParse_object string_min_max_def)
  then show "r_post env tbl (Some (JObj kvs)) =
        (tbl, Sent \<lparr>status = 400, body = Invalid
           (Formatted [] [(''title'', Formatted [invalid_type TString TUndefined] [])])\<rparr>)"
    by (simp add: r_post_invalid format_field)
next
  assume a: "map_of kvs ''title'' = Some v \<and> (\<forall>s. v \<noteq> JStr s)"
  then have "CreateItem_safeParse (Some (JObj kvs)) =
      Inl [\<lparr>code = invalid_type TString (getParsedType (Some v)), path = [''title'']\<rparr>]"
    by (cases v) (simp_all add: safeParse_object string_min_max_def)
  then show "r_post env tbl (Some (JObj kvs)) =
        (tbl, Sent \<lparr>status = 400, body = Invalid
           (Formatted [] [(''title'', Formatted [invalid_type TString (getParsedType (Some v))] [])])\<rparr>)"
    by (simp add: r_post_invalid format_field)
next
  assume "map_of kvs ''title'' = Some (JStr [])"
  then have "CreateItem_safeParse (Some (JObj kvs)) = Inl [\<lparr>code = too_small 1, path = [''title'']\<rparr>]"
    by (simp add: safeParse_object string_min_max_def)
  then show "r_post env tbl (Some (JObj kvs)) =
        (tbl, Sent \<lparr>status = 400, body = Invalid
           (Formatted [] [(''title'', Formatted [too_small 1] [])])\<rparr>)"
    by (simp add: r_post_invalid format_field)
next
  assume "map_of kvs ''title'' = Some (JStr s) \<and> length s > 200"
  then have "CreateItem_safeParse (Some (JObj kvs)) = Inl [\<lparr>code = too_big 200, path = [''title'']\<rparr>]"
    by (auto simp: safeParse_object string_min_max_def)
  then show "r_post env tbl (Some (JObj kvs)) =
        (tbl, Sent \<lparr>status = 400, body = Invalid
           (Formatted [] [(''title'', Formatted [too_big 200] [])])\<rparr>)"
    by (simp add: r_post_invalid format_field)
next
  have "CreateItem_safeParse (Some (JObj [])) =
      Inl [\<lparr>code = invalid_type TString TUndefined, path = [''title'']\<rparr>]"
    by (simp add: safeParse_object string_min_max_def)
  then show "r_post env tbl (Some (JObj [])) =
     (tbl, Sent \<lparr>status = 400, body = Invalid
        (Formatted [] [(''title'', Formatted [invalid_type TString TUndefined] [])])\<rparr>)"
    by (simp add: r_post_invalid format_field)
next
  assume "\<forall>kvs. b \<noteq> Some (JObj kvs)"
  then have "CreateItem_safeParse b = Inl [\<lparr>code = invalid_type TObject (getParsedType b), path = []\<rparr>]"
    by (auto simp: CreateItem_safeParse_def split: option.splits json.splits)
  then show "r_post env tbl b =
        (tbl, Sent \<lparr>status = 400, body = Invalid
           (Formatted [invalid_type TObject (getParsedType b)] [])\<rparr>)"
    by (simp add: r_post_invalid format_root)
qed

text \<open>
  The amended C2 at one body of each kind.
\<close>

theorem invalid_title_rejected_witness:
  "r_post \<lparr>now = 7, new_id = ''id9'', db_down = None, scan = []\<rparr> [] (Some (JObj [(''name'', JStr ''x'')])) =
     ([], Sent \<lparr>status = 400, body = Invalid
        (Formatted [] [(''title'', Formatted [invalid_type TString TUndefined] [])])\<rparr>) \<and>
   r_post \<lparr>now = 7, new_id = ''id9'', db_down = None, scan = []\<rparr> [] (Some (JObj [(''title'', JNum 5)])) =
     ([], Sent \<lparr>status = 400, body = Invalid
        (Formatted [] [(''title'', Formatted [invalid_type TString TNumber] [])])\<rparr>) \<and>
   r_post \<lparr>now = 7, new_id = ''id9'', db_down = None, scan = []\<rparr> [] (Some (JObj [(''title'', JStr [])])) =
     ([], Sent \<lparr>status = 400, body = Invalid
        (Formatted [] [(''title'', Formatted [too_small 1] [])])\<rparr>) \<and>
   r_post \<lparr>now = 7, new_id = ''id9'', db_down = None, scan = []\<rparr> []
       (Some (JObj [(''title'', JStr (replicate 201 CHR ''a''))])) =
     ([], Sent \<lparr>status = 400, body = Invalid
        (Formatted [] [(''title'', Formatted [too_big 200] [])])\<rparr>) \<and>
   r_post \<lparr>now = 7, new_id = ''id9'', db_down = None, scan = []\<rparr> [] (Some (JArr [])) =
     ([], Sent \<lparr>status = 400, body = Invalid (Formatted [invalid_type TObject TArray] [])\<rparr>) \<and>
   CreateItem_safeParse None = Inl [\<lparr>code = invalid_type TObject TUndefined, path = []\<rparr>] \<and>
   r_post \<lparr>now = 7, new_id = ''id9'', db_down = None, scan = []\<rparr> [] None =
     ([], Sent \<lparr>status = 400, body = Invalid (Formatted [invalid_type TObject TUndefined] [])\<rparr>)"
proof -
  let ?env = "\<lparr>now = 7, new_id = ''id9'', db_down = None, scan = []\<rparr>"
  have none: "CreateItem_safeParse None = Inl [\<lparr>code = invalid_type TObject TUndefined, path = []\<rparr>]"
    by (simp add: CreateItem_safeParse_def)
  from invalid_title_rejected [where kvs = "[(''name'', JStr ''x'')]" and env = ?env and tbl = "[]"]
  have missing: "r_post ?env [] (Some (JObj [(''name'', JStr ''x'')])) =
     ([], Sent \<lparr>status = 400, body = Invalid
        (Formatted [] [(''title'', Formatted [invalid_type TString TUndefined] [])])\<rparr>)"
    by simp
  from invalid_title_rejected [where kvs = "[(''title'', JNum 5)]" and v = "JNum 5"
      and env = ?env and tbl = "[]"]
  have number: "r_post ?env [] (Some (JObj [(''title'', JNum 5)])) =
     ([], Sent \<lparr>status = 400, body = Invalid
        (Formatted [] [(''title'', Formatted [invalid_type TString TNumber] [])])\<rparr>)"
    by simp
  from invalid_title_rejected [where kvs = "[(''title'', JStr [])]" and env = ?env and tbl = "[]"]
  have empty: "r_post ?env [] (Some (JObj [(''title'', JStr [])])) =
     ([], Sent \<lparr>status = 400, body = Invalid
        (Formatted [] [(''title'', Formatted [too_small 1] [])])\<rparr>)"
    by simp
  from invalid_title_rejected [where kvs = "[(''title'', JStr (replicate 201 CHR ''a''))]"
      and s = "replicate 201 CHR ''a''" and env = ?env and tbl = "[]"]
  have long: "r_post ?env [] (Some (JObj [(''title'', JStr (replicate 201 CHR ''a''))])) =
     ([], Sent \<lparr>status = 400, body = Invalid
        (Formatted [] [(''title'', Formatted [too_big 200] [])])\<rparr>)"
    by simp
  from invalid_title_rejected [where b = "Some (JArr [])" and env = ?env and tbl = "[]"]
  have array: "r_post ?env [] (Some (JArr [])) =
     ([], Sent \<lparr>status = 400, body = Invalid (Formatted [invalid_type TObject TArray] [])\<rparr>)"
    by simp
  from invalid_title_rejected [where b = None
      and issues = "[\<lparr>code = invalid_type TObject TUndefined, path = []\<rparr>]"
      and env = ?env and tbl = "[]"] none
  have nobody: "r_post ?env [] None =
     ([], Sent \<lparr>status = 400, body = Invalid (Formatted [invalid_type TObject TUndefined] [])\<rparr>)"
    by (simp add: format_root)
  from missing number empty long array none nobody show ?thesis by blast
qed




text \<open>
  C4. For every table, on a database that is reachable, the list handler answers 200
  with an array that holds exactly the stored rows, with \<open>createdAt\<close> non-increasing
  along it, and leaves the table as it was; for the empty table the array is empty.
\<close>

theorem list_newest_first:
  assumes "db_down env = None"
  shows "\<exists>xs. r_get env tbl = (tbl, Sent \<lparr>status = 200, body = Items xs\<rparr>) \<and>
              mset xs = mset tbl \<and>
              sorted_wrt (\<ge>) (map createdAt xs) \<and>
              (tbl = [] \<longrightarrow> xs = [])"
proof -
  let ?xs = "orderBy_createdAt_desc (scan env) tbl"
  have "r_get env tbl = (tbl, Sent \<lparr>status = 200, body = Items ?xs\<rparr>)"
    using assms by (rule r_get_up)
  moreover have "mset ?xs = mset tbl"
    by (rule mset_orderBy)
  moreover have "sorted_wrt (\<ge>) (map createdAt ?xs)"
    by (rule sorted_orderBy)
  moreover have "tbl = [] \<longrightarrow> ?xs = []"
    by (simp add: orderBy_Nil)
  ultimately show ?thesis by blast
qed

text \<open>
  C4 on a table of three rows stored out of order, and on the empty table.
\<close>

theorem list_newest_first_witness:
  "r_get \<lparr>now = 50, new_id = ''n'', db_down = None, scan = []\<rparr>
     [\<lparr>item_id = ''a'', title = ''first'', createdAt = 10\<rparr>,
      \<lparr>item_id = ''b'', title = ''second'', createdAt = 30\<rparr>,
      \<lparr>item_id = ''c'', title = ''third'', createdAt = 20\<rparr>] =
    ([\<lparr>item_id = ''a'', title = ''first'', createdAt = 10\<rparr>,
      \<lparr>item_id = ''b'', title = ''second'', createdAt = 30\<rparr>,
      \<lparr>item_id = ''c'', title = ''third'', createdAt = 20\<rparr>],
     Sent \<lparr>status = 200, body = Items
       [\<lparr>item_id = ''b'', title = ''second'', createdAt = 30\<rparr>,
        \<lparr>item_id = ''c'', title = ''third'', createdAt = 20\<rparr>,
        \<lparr>item_id = ''a'', title = ''first'', createdAt = 10\<rparr>]\<rparr>) \<and>
   r_get \<lparr>now = 50, new_id = ''n'', db_down = None, scan = []\<rparr> [] =
     ([], Sent \<lparr>status = 200, body = Items []\<rparr>)"
proof -
  have up: "db_down \<lparr>now = 50, new_id = ''n'', db_down = None, scan = []\<rparr> = None"
    by simp
  from list_newest_first [OF up, of "[]"]
  have empty: "r_get \<lparr>now = 50, new_id = ''n'', db_down = None, scan = []\<rparr> [] =
     ([], Sent \<lparr>status = 200, body = Items []\<rparr>)"
    by auto
  from list_newest_first [OF up,
      of "[\<lparr>item_id = ''a'', title = ''first'', createdAt = 10\<rparr>,
           \<lparr>item_id = ''b'', title = ''second'', createdAt = 30\<rparr>,
           \<lparr>item_id = ''c'', title = ''third'', createdAt = 20\<rparr>]"]
  obtain xs where xs: "r_get \<lparr>now = 50, new_id = ''n'', db_down = None, scan = []\<rparr>
     [\<lparr>item_id = ''a'', title = ''first'', createdAt = 10\<rparr>,
      \<lparr>item_id = ''b'', title = ''second'', createdAt = 30\<rparr>,
      \<lparr>item_id = ''c'', title = ''third'', createdAt = 20\<rparr>] =
    ([\<lparr>item_id = ''a'', title = ''first'', createdAt = 10\<rparr>,
      \<lparr>item_id = ''b'', title = ''second'', createdAt = 30\<rparr>,
      \<lparr>item_id = ''c'', title = ''third'', createdAt = 20\<rparr>],
     Sent \<lparr>status = 200, body = Items xs\<rparr>)"
    by blast
  then have "xs = [\<lparr>item_id = ''b'', title = ''second'', createdAt = 30\<rparr>,
        \<lparr>item_id = ''c'', title = ''third'', createdAt = 20\<rparr>,
        \<lparr>item_id = ''a'', title = ''first'', createdAt = 10\<rparr>]"
    by (simp add: r_get_def item_findMany_def orderBy_createdAt_desc_def)
  with xs empty show ?thesis by simp
qed

text \<open>
  C5. In every table that the handlers and the seed script can produce from the empty
  one, each title has between 1 and 200 characters. Each operation keeps that property
  of any table. A create changes the table only after the body has passed validation
  with a title within the bounds, and then by appending one row with that title. No
  operation updates or deletes: the list leaves the table as it is, the others only
  append.
\<close>

theorem persisted_titles_bounded:
  "(reachable tbl \<longrightarrow> (\<forall>i\<in>set tbl. 1 \<le> length (title i) \<and> length (title i) \<le> 200)) \<and>
   ((\<forall>i\<in>set tbl. title_ok i) \<longrightarrow>
      (\<forall>i\<in>set (fst (r_get env tbl)). title_ok i) \<and>
      (\<forall>i\<in>set (fst (r_post env tbl b)). title_ok i) \<and>
      (\<forall>i\<in>set (fst (main envc env tbl)). title_ok i)) \<and>
   (fst (r_post env tbl b) \<noteq> tbl \<longrightarrow>
      (\<exists>t. CreateItem_safeParse b = Inr [(''title'', JStr t)] \<and>
           1 \<le> length t \<and> length t \<le> 200 \<and>
           fst (r_post env tbl b) =
             tbl @ [\<lparr>item_id = new_id env, title = t, createdAt = now env\<rparr>])) \<and>
   fst (r_get env tbl) = tbl \<and>
   (\<exists>new. fst (r_post env tbl b) = tbl @ new) \<and>
   (\<exists>new. fst (main envc env tbl) = tbl @ new)"
proof (intro conjI impI)
  assume "reachable tbl"
  then have "\<forall>i\<in>set tbl. title_ok i" by (rule reachable_titles)
  then show "\<forall>i\<in>set tbl. 1 \<le> length (title i) \<and> length (title i) \<le> 200"
    by (simp add: title_ok_def)
next
  assume "\<forall>i\<in>set tbl. title_ok i"
  then show "\<forall>i\<in>set (fst (r_get env tbl)). title_ok i" by (simp add: r_get_table)
next
  assume "\<forall>i\<in>set tbl. title_ok i"
  then show "\<forall>i\<in>set (fst (r_post env tbl b)). title_ok i" by (rule r_post_keeps_titles)
next
  assume "\<forall>i\<in>set tbl. title_ok i"
  then show "\<forall>i\<in>set (fst (main envc env tbl)). title_ok i" by (rule main_keeps_titles)
next
  assume "fst (r_post env tbl b) \<noteq> tbl"
  then show "\<exists>t. CreateItem_safeParse b = Inr [(''title'', JStr t)] \<and>
           1 \<le> length t \<and> length t \<le> 200 \<and>
           fst (r_post env tbl b) =
             tbl @ [\<lparr>item_id = new_id env, title = t, createdAt = now env\<rparr>]"
    by (rule r_post_changes)
next
  show "fst (r_get env tbl) = tbl" by (rule r_get_table)
next
  show "\<exists>new. fst (r_post env tbl b) = tbl @ new" by (rule r_post_appends)
next
  show "\<exists>new. fst (main envc env tbl) = tbl @ new" by (rule main_appends)
qed

text \<open>
  C5 on a table reached by one create, and on a second create into it.
\<close>

theorem persisted_titles_bounded_witness:
  "reachable [\<lparr>item_id = ''id1'', title = ''Buy milk'', createdAt = 20\<rparr>] \<and>
   title_ok \<lparr>item_id = ''id1'', title = ''Buy milk'', createdAt = 20\<rparr> \<and>
   length (title \<lparr>item_id = ''id1'', title = ''Buy milk'', createdAt = 20\<rparr>) = 8 \<and>
   fst (r_post \<lparr>now = 30, new_id = ''id2'', db_down = None, scan = []\<rparr>
          [\<lparr>item_id = ''id1'', title = ''Buy milk'', createdAt = 20\<rparr>]
          (Some (JObj [(''title'', JStr ''Walk dog'')]))) =
     [\<lparr>item_id = ''id1'', title = ''Buy milk'', createdAt = 20\<rparr>,
      \<lparr>item_id = ''id2'', title = ''Walk dog'', createdAt = 30\<rparr>] \<and>
   CreateItem_safeParse (Some (JObj [(''title'', JStr ''Walk dog'')])) =
     Inr [(''title'', JStr ''Walk dog'')] \<and>
   title_ok \<lparr>item_id = ''id2'', title = ''Walk dog'', createdAt = 30\<rparr>"
proof -
  let ?tbl = "[\<lparr>item_id = ''id1'', title = ''Buy milk'', createdAt = 20\<rparr>]"
  let ?env = "\<lparr>now = 30, new_id = ''id2'', db_down = None, scan = []\<rparr>"
  let ?b = "Some (JObj [(''title'', JStr ''Walk dog'')])"
  note inst = persisted_titles_bounded [of ?tbl ?env ?b]
  have post: "r_post ?env ?tbl ?b =
     (?tbl @ [\<lparr>item_id = ''id2'', title = ''Walk dog'', createdAt = 30\<rparr>],
      Sent \<lparr>status = 201, body = Created \<lparr>item_id = ''id2'', title = ''Walk dog'', createdAt = 30\<rparr>\<rparr>)"
    using r_post_created [of "[(''title'', JStr ''Walk dog'')]" "''Walk dog''" ?env ?tbl]
    by simp
  from inst reachable_milk have inv: "\<forall>i\<in>set ?tbl. 1 \<le> length (title i) \<and> length (title i) \<le> 200"
    by blast
  then have ok: "\<forall>i\<in>set ?tbl. title_ok i"
    by (simp add: title_ok_def)
  with inst have "\<forall>i\<in>set (fst (r_post ?env ?tbl ?b)). title_ok i"
    by blast
  then have ok2: "title_ok \<lparr>item_id = ''id2'', title = ''Walk dog'', createdAt = 30\<rparr>"
    by (simp add: post)
  have changed: "fst (r_post ?env ?tbl ?b) \<noteq> ?tbl"
    by (simp add: post)
  with inst obtain t where "CreateItem_safeParse ?b = Inr [(''title'', JStr t)]"
      "fst (r_post ?env ?tbl ?b) = ?tbl @ [\<lparr>item_id = new_id ?env, title = t, createdAt = now ?env\<rparr>]"
    by blast
  then have parsed: "CreateItem_safeParse ?b = Inr [(''title'', JStr ''Walk dog'')]"
    by (simp add: post)
  from ok have ok1: "title_ok \<lparr>item_id = ''id1'', title = ''Buy milk'', createdAt = 20\<rparr>"
    by simp
  from reachable_milk ok1 ok2 parsed post show ?thesis by simp
qed

text \<open>
  C6, the claim as stated fails when \<open>NODE_ENV\<close> is not \<open>production\<close>: with the
  database unreachable, both routes are answered 500 with the text of the database error
  as the body.
\<close>

theorem persistence_failure_leaks_counterexample:
  "app None \<lparr>now = 0, new_id = ''id1'', db_down = Some ''P1001: cannot reach database server at db:5432'', scan = []\<rparr>
       [] GET_api_items =
     ([], \<lparr>status = 500, body = Text ''P1001: cannot reach database server at db:5432''\<rparr>) \<and>
   app None \<lparr>now = 0, new_id = ''id1'', db_down = Some ''P1001: cannot reach database server at db:5432'', scan = []\<rparr>
       [] (POST_api_items (Some (JObj [(''title'', JStr ''Buy milk'')]))) =
     ([], \<lparr>status = 500, body = Text ''P1001: cannot reach database server at db:5432''\<rparr>)"
  by (simp add: app_def r_get_def r_post_def item_findMany_def safeParse_valid item_create_title
      finalhandler_def)

text \<open>
  C6, amended. A validation failure is answered by the handler itself, 400 with the
  formatted error. An error of the persistence accessor is not caught by the handler:
  it escapes, the table is unchanged, and the application answers through the
  framework's built-in error handler, always with status 500; the body is the bare
  status text when \<open>NODE_ENV\<close> is \<open>production\<close>, and the stack of the error
  otherwise.
\<close>

theorem failures_handled_or_propagated:
  "(CreateItem_safeParse b = Inl issues \<longrightarrow>
      r_post env tbl b = (tbl, Sent \<lparr>status = 400, body = Invalid (format issues)\<rparr>) \<and>
      app NODE_ENV env tbl (POST_api_items b) = (tbl, \<lparr>status = 400, body = Invalid (format issues)\<rparr>)) \<and>
   (CreateItem_safeParse b = Inr data \<and> item_create env tbl data = Inl err \<longrightarrow>
      r_post env tbl b = (tbl, Rejected err) \<and>
      app NODE_ENV env tbl (POST_api_items b) = (tbl, finalhandler NODE_ENV err)) \<and>
   (item_findMany env tbl = Inl err \<longrightarrow>
      r_get env tbl = (tbl, Rejected err) \<and>
      app NODE_ENV env tbl GET_api_items = (tbl, finalhandler NODE_ENV err)) \<and>
   status (finalhandler NODE_ENV err) = 500 \<and>
   finalhandler (Some ''production'') err = \<lparr>status = 500, body = Text ''Internal Server Error''\<rparr> \<and>
   (NODE_ENV \<noteq> Some ''production'' \<and> error_stack err \<noteq> [] \<longrightarrow>
      finalhandler NODE_ENV err = \<lparr>status = 500, body = Text (error_stack err)\<rparr>)"
proof (intro conjI impI)
  assume a: "CreateItem_safeParse b = Inl issues"
  then show "r_post env tbl b = (tbl, Sent \<lparr>status = 400, body = Invalid (format issues)\<rparr>)"
    by (rule r_post_invalid)
  then show "app NODE_ENV env tbl (POST_api_items b) = (tbl, \<lparr>status = 400, body = Invalid (format issues)\<rparr>)"
    by (simp add: app_post)
next
  assume a: "CreateItem_safeParse b = Inr data \<and> item_create env tbl data = Inl err"
  then show p: "r_post env tbl b = (tbl, Rejected err)"
    by (simp add: r_post_def)
  then show "app NODE_ENV env tbl (POST_api_items b) = (tbl, finalhandler NODE_ENV err)"
    by (simp add: app_post)
next
  assume a: "item_findMany env tbl = Inl err"
  then show p: "r_get env tbl = (tbl, Rejected err)"
    by (simp add: r_get_def)
  then show "app NODE_ENV env tbl GET_api_items = (tbl, finalhandler NODE_ENV err)"
    by (simp add: app_get)
next
  show "status (finalhandler NODE_ENV err) = 500" by (rule finalhandler_status)
next
  show "finalhandler (Some ''production'') err = \<lparr>status = 500, body = Text ''Internal Server Error''\<rparr>"
    by (rule finalhandler_production)
next
  assume "NODE_ENV \<noteq> Some ''production'' \<and> error_stack err \<noteq> []"
  then show "finalhandler NODE_ENV err = \<lparr>status = 500, body = Text (error_stack err)\<rparr>"
    by (simp add: finalhandler_other)
qed

text \<open>
  The amended C6 with the database unreachable, in production and in development.
\<close>

theorem failures_handled_or_propagated_witness:
  "app (Some ''production'') \<lparr>now = 0, new_id = ''id1'', db_down = Some ''P1001'', scan = []\<rparr> []
       (POST_api_items (Some (JObj []))) =
     ([], \<lparr>status = 400, body = Invalid
        (Formatted [] [(''title'', Formatted [invalid_type TString TUndefined] [])])\<rparr>) \<and>
   r_post \<lparr>now = 0, new_id = ''id1'', db_down = Some ''P1001'', scan = []\<rparr> []
       (Some (JObj [(''title'', JStr ''Buy milk'')])) = ([], Rejected (ConnectionError ''P1001'')) \<and>
   app (Some ''production'') \<lparr>now = 0, new_id = ''id1'', db_down = Some ''P1001'', scan = []\<rparr> []
       (POST_api_items (Some (JObj [(''title'', JStr ''Buy milk'')]))) =
     ([], \<lparr>status = 500, body = Text ''Internal Server Error''\<rparr>) \<and>
   r_get \<lparr>now = 0, new_id = ''id1'', db_down = Some ''P1001'', scan = []\<rparr> [] = ([], Rejected (ConnectionError ''P1001'')) \<and>
   app (Some ''production'') \<lparr>now = 0, new_id = ''id1'', db_down = Some ''P1001'', scan = []\<rparr> [] GET_api_items =
     ([], \<lparr>status = 500, body = Text ''Internal Server Error''\<rparr>) \<and>
   finalhandler (Some ''development'') (ConnectionError ''P1001'') = \<lparr>status = 500, body = Text ''P1001''\<rparr>"
proof -
  let ?env = "\<lparr>now = 0, new_id = ''id1'', db_down = Some ''P1001'', scan = []\<rparr>"
  have bad: "CreateItem_safeParse (Some (JObj [])) =
      Inl [\<lparr>code = invalid_type TString TUndefined, path = [''title'']\<rparr>]"
    by (simp add: CreateItem_safeParse_def string_min_max_def)
  have good: "CreateItem_safeParse (Some (JObj [(''title'', JStr ''Buy milk'')])) =
      Inr [(''title'', JStr ''Buy milk'')]"
    by (rule safeParse_valid) simp_all
  have create: "item_create ?env [] [(''title'', JStr ''Buy milk'')] = Inl (ConnectionError ''P1001'')"
    by (simp add: item_create_title)
  have find: "item_findMany ?env [] = Inl (ConnectionError ''P1001'')"
    by (simp add: item_findMany_def)
  have fmt: "format [\<lparr>code = invalid_type TString TUndefined, path = [''title'']\<rparr>] =
      Formatted [] [(''title'', Formatted [invalid_type TString TUndefined] [])]"
    by (simp add: format_def field_of_def)
  from failures_handled_or_propagated
      [of "Some (JObj [])" "[\<lparr>code = invalid_type TString TUndefined, path = [''title'']\<rparr>]"
          ?env "[]" "Some ''production''" "[(''title'', JStr ''Buy milk'')]" "ConnectionError ''P1001''"]
    bad fmt
  have c1: "app (Some ''production'') ?env [] (POST_api_items (Some (JObj []))) =
     ([], \<lparr>status = 400, body = Invalid
        (Formatted [] [(''title'', Formatted [invalid_type TString TUndefined] [])])\<rparr>)"
    by simp
  from failures_handled_or_propagated
      [of "Some (JObj [(''title'', JStr ''Buy milk'')])" _
          ?env "[]" "Some ''production''" "[(''title'', JStr ''Buy milk'')]" "ConnectionError ''P1001''"]
    good create find
  have c2: "r_post ?env [] (Some (JObj [(''title'', JStr ''Buy milk'')])) = ([], Rejected (ConnectionError ''P1001''))"
    and c3: "app (Some ''production'') ?env [] (POST_api_items (Some (JObj [(''title'', JStr ''Buy milk'')]))) =
       ([], \<lparr>status = 500, body = Text ''Internal Server Error''\<rparr>)"
    and c4: "r_get ?env [] = ([], Rejected (ConnectionError ''P1001''))"
    and c5: "app (Some ''production'') ?env [] GET_api_items =
       ([], \<lparr>status = 500, body = Text ''Internal Server Error''\<rparr>)"
    by simp_all
  from failures_handled_or_propagated
      [of "Some (JObj [])" "[]" ?env "[]" "Some ''development''" "[]" "ConnectionError ''P1001''"]
  have c6: "finalhandler (Some ''development'') (ConnectionError ''P1001'') = \<lparr>status = 500, body = Text ''P1001''\<rparr>"
    by simp
  from c1 c2 c3 c4 c5 c6 show ?thesis by blast
qed

text \<open>
  C7, the claim as stated fails on a table with two rows of equal \<open>createdAt\<close>: the
  query orders by \<open>createdAt\<close> alone, and when the database meets the two rows in a
  different order on the second query, the second array has them the other way round.
\<close>

theorem equal_createdAt_order_counterexample:
  "r_get \<lparr>now = 40, new_id = ''p'', db_down = None, scan = []\<rparr>
     [\<lparr>item_id = ''a'', title = ''first'', createdAt = 10\<rparr>,
      \<lparr>item_id = ''b'', title = ''second'', createdAt = 10\<rparr>] =
     ([\<lparr>item_id = ''a'', title = ''first'', createdAt = 10\<rparr>,
       \<lparr>item_id = ''b'', title = ''second'', createdAt = 10\<rparr>],
      Sent \<lparr>status = 200, body = Items
        [\<lparr>item_id = ''a'', title = ''first'', createdAt = 10\<rparr>,
         \<lparr>item_id = ''b'', title = ''second'', createdAt = 10\<rparr>]\<rparr>) \<and>
   r_get \<lparr>now = 41, new_id = ''q'', db_down = None, scan = [''b'']\<rparr>
     [\<lparr>item_id = ''a'', title = ''first'', createdAt = 10\<rparr>,
      \<lparr>item_id = ''b'', title = ''second'', createdAt = 10\<rparr>] =
     ([\<lparr>item_id = ''a'', title = ''first'', createdAt = 10\<rparr>,
       \<lparr>item_id = ''b'', title = ''second'', createdAt = 10\<rparr>],
      Sent \<lparr>status = 200, body = Items
        [\<lparr>item_id = ''b'', title = ''second'', createdAt = 10\<rparr>,
         \<lparr>item_id = ''a'', title = ''first'', createdAt = 10\<rparr>]\<rparr>) \<and>
   [\<lparr>item_id = ''a'', title = ''first'', createdAt = 10\<rparr>,
    \<lparr>item_id = ''b'', title = ''second'', createdAt = 10\<rparr>] \<noteq>
   [\<lparr>item_id = ''b'', title = ''second'', createdAt = 10\<rparr>,
    \<lparr>item_id = ''a'', title = ''first'', createdAt = (10::int)\<rparr>]"
  by (simp add: r_get_def item_findMany_def orderBy_createdAt_desc_def)

text \<open>
  C7, amended. When a list is answered with an array and a second list, run on the table
  the first one left, in any environment, is answered with an array too, both lists
  left the table as it was, and the two arrays hold the same records, each with
  \<open>createdAt\<close> non-increasing. The two arrays are identical when no two stored records
  have the same \<open>createdAt\<close>, and when the database meets the rows in the same order
  on both queries.
\<close>

theorem list_idempotent:
  assumes "r_get env tbl = (tbl1, Sent \<lparr>status = st1, body = Items xs\<rparr>)"
    and "r_get env' tbl1 = (tbl2, Sent \<lparr>status = st2, body = Items ys\<rparr>)"
  shows "tbl1 = tbl \<and> tbl2 = tbl \<and> st2 = st1 \<and>
         mset ys = mset xs \<and>
         sorted_wrt (\<ge>) (map createdAt xs) \<and> sorted_wrt (\<ge>) (map createdAt ys) \<and>
         (distinct (map createdAt tbl) \<longrightarrow> ys = xs) \<and>
         (scan env' = scan env \<longrightarrow> ys = xs)"
proof -
  from assms(1) have one: "tbl1 = tbl" "st1 = 200" "xs = orderBy_createdAt_desc (scan env) tbl"
    by (auto dest: r_get_Items)
  from assms(2) have two: "tbl2 = tbl1" "st2 = 200" "ys = orderBy_createdAt_desc (scan env') tbl1"
    by (auto dest: r_get_Items)
  from one two have same: "mset ys = mset xs"
    by (simp add: mset_orderBy)
  from one two have sorted: "sorted_wrt (\<ge>) (map createdAt xs)" "sorted_wrt (\<ge>) (map createdAt ys)"
    by (simp_all add: sorted_orderBy)
  have no_ties: "distinct (map createdAt tbl) \<longrightarrow> ys = xs"
    using one two by (auto intro: orderBy_distinct_unique)
  have same_scan: "scan env' = scan env \<longrightarrow> ys = xs"
    using one two by simp
  from one two same sorted no_ties same_scan show ?thesis by simp
qed

text \<open>
  The amended C7 on a table of two rows of different times, read by a database that
  meets the rows in a different order on the second query: the arrays are identical.
\<close>

theorem list_idempotent_witness:
  "r_get \<lparr>now = 40, new_id = ''p'', db_down = None, scan = []\<rparr>
     [\<lparr>item_id = ''a'', title = ''first'', createdAt = 10\<rparr>,
      \<lparr>item_id = ''b'', title = ''second'', createdAt = 30\<rparr>] =
     ([\<lparr>item_id = ''a'', title = ''first'', createdAt = 10\<rparr>,
       \<lparr>item_id = ''b'', title = ''second'', createdAt = 30\<rparr>],
      Sent \<lparr>status = 200, body = Items
        [\<lparr>item_id = ''b'', title = ''second'', createdAt = 30\<rparr>,
         \<lparr>item_id = ''a'', title = ''first'', createdAt = 10\<rparr>]\<rparr>) \<and>
   distinct (map createdAt
     [\<lparr>item_id = ''a'', title = ''first'', createdAt = 10\<rparr>,
      \<lparr>item_id = ''b'', title = ''second'', createdAt = 30\<rparr>]) \<and>
   (\<exists>ys. r_get \<lparr>now = 41, new_id = ''q'', db_down = None, scan = [''a'']\<rparr>
     [\<lparr>item_id = ''a'', title = ''first'', createdAt = 10\<rparr>,
      \<lparr>item_id = ''b'', title = ''second'', createdAt = 30\<rparr>] =
     ([\<lparr>item_id = ''a'', title = ''first'', createdAt = 10\<rparr>,
       \<lparr>item_id = ''b'', title = ''second'', createdAt = 30\<rparr>],
      Sent \<lparr>status = 200, body = Items ys\<rparr>) \<and>
     ys = [\<lparr>item_id = ''b'', title = ''second'', createdAt = 30\<rparr>,
           \<lparr>item_id = ''a'', title = ''first'', createdAt = 10\<rparr>])"
proof -
  let ?tbl = "[\<lparr>item_id = ''a'', title = ''first'', createdAt = 10\<rparr>,
      \<lparr>item_id = ''b'', title = ''second'', createdAt = 30\<rparr>]"
  let ?xs = "[\<lparr>item_id = ''b'', title = ''second'', createdAt = 30\<rparr>,
         \<lparr>item_id = ''a'', title = ''first'', createdAt = 10\<rparr>]"
  let ?e1 = "\<lparr>now = 40, new_id = ''p'', db_down = None, scan = []\<rparr>"
  let ?e2 = "\<lparr>now = 41, new_id = ''q'', db_down = None, scan = [''a'']\<rparr>"
  have one: "r_get ?e1 ?tbl = (?tbl, Sent \<lparr>status = 200, body = Items ?xs\<rparr>)"
    by (simp add: r_get_def item_findMany_def orderBy_createdAt_desc_def)
  have up: "db_down ?e2 = None"
    by simp
  have two: "r_get ?e2 ?tbl =
      (?tbl, Sent \<lparr>status = 200, body = Items (orderBy_createdAt_desc (scan ?e2) ?tbl)\<rparr>)"
    using up by (rule r_get_up)
  have d: "distinct (map createdAt ?tbl)"
    by simp
  from list_idempotent [OF one two] d
  have "orderBy_createdAt_desc (scan ?e2) ?tbl = ?xs"
    by blast
  with one two d show ?thesis by simp
qed

text \<open>
  C8, the claim as stated fails on a request without an origin: with the default
  configuration the callback accepts the empty \<open>Origin\<close> and the absent one, neither of
  which is the configured origin.
\<close>

theorem cors_origin_counterexample:
  "origin None (Some []) = Inr True \<and>
   origin None None = Inr True \<and>
   allowedOrigins None = [''http://localhost:3000'']"
  by (simp add: origin_def allowedOrigins_def)

text \<open>
  C8, amended. There is a single configured origin, \<open>FRONTEND_ORIGIN\<close> or, when that is
  unset or empty, \<open>http://localhost:3000\<close>. The callback accepts a request exactly when
  it has no \<open>Origin\<close>, an empty one, or the configured one; every other origin is
  refused with \<open>Not allowed by CORS\<close>.
\<close>

theorem cors_origin_accepts:
  "\<exists>c. allowedOrigins FRONTEND_ORIGIN = [c] \<and>
       (FRONTEND_ORIGIN = None \<or> FRONTEND_ORIGIN = Some [] \<longrightarrow> c = ''http://localhost:3000'') \<and>
       (\<forall>v. FRONTEND_ORIGIN = Some v \<and> v \<noteq> [] \<longrightarrow> c = v) \<and>
       origin FRONTEND_ORIGIN h =
         (if h = None \<or> h = Some [] \<or> h = Some c then Inr True else Inl ''Not allowed by CORS'')"
  by (auto simp: origin_def allowedOrigins_def split: option.splits)

text \<open>
  The amended C8 under the default and under a configured origin.
\<close>

theorem cors_origin_accepts_witness:
  "allowedOrigins None = [''http://localhost:3000''] \<and>
   origin None (Some ''http://localhost:3000'') = Inr True \<and>
   origin None (Some ''http://evil.example'') = Inl ''Not allowed by CORS'' \<and>
   allowedOrigins (Some ''https://esda.example'') = [''https://esda.example''] \<and>
   origin (Some ''https://esda.example'') (Some ''https://esda.example'') = Inr True \<and>
   origin (Some ''https://esda.example'') (Some ''http://localhost:3000'') = Inl ''Not allowed by CORS'' \<and>
   origin (Some ''https://esda.example'') None = Inr True"
  using cors_origin_accepts [of None "Some ''http://localhost:3000''"]
    cors_origin_accepts [of None "Some ''http://evil.example''"]
    cors_origin_accepts [of "Some ''https://esda.example''" "Some ''https://esda.example''"]
    cors_origin_accepts [of "Some ''https://esda.example''" "Some ''http://localhost:3000''"]
    cors_origin_accepts [of "Some ''https://esda.example''" None]
  by auto

text \<open>
  C9. For every object body with a valid title, whatever else it holds, validation
  succeeds and the parsed data is the object with the title alone; the handler passes
  exactly that to the accessor, so its result is the result for the body
  \<open>{title}\<close> without the other fields.
\<close>

theorem extra_fields_stripped:
  assumes "map_of kvs ''title'' = Some (JStr t)" and "1 \<le> length t" and "length t \<le> 200"
  shows "CreateItem_safeParse (Some (JObj kvs)) = Inr [(''title'', JStr t)] \<and>
         r_post env tbl (Some (JObj kvs)) =
           (case item_create env tbl [(''title'', JStr t)] of
              Inl e \<Rightarrow> (tbl, Rejected e)
            | Inr (tbl', row) \<Rightarrow> (tbl', Sent \<lparr>status = 201, body = Created row\<rparr>)) \<and>
         r_post env tbl (Some (JObj kvs)) = r_post env tbl (Some (JObj [(''title'', JStr t)]))"
proof -
  have "map_of [(''title'', JStr t)] ''title'' = Some (JStr t)"
    by simp
  then have "r_post env tbl (Some (JObj [(''title'', JStr t)])) = r_post env tbl (Some (JObj kvs))"
    using assms by (simp only: r_post_valid)
  with assms show ?thesis
    by (simp add: safeParse_valid r_post_valid)
qed

text \<open>
  C9 on a body that also carries \<open>id\<close>, \<open>createdAt\<close> and \<open>admin\<close>: none of them
  reaches the stored row.
\<close>

theorem extra_fields_stripped_witness:
  "CreateItem_safeParse (Some (JObj [(''id'', JStr ''forged''), (''title'', JStr ''Buy milk''),
       (''createdAt'', JNum 0), (''admin'', JBool True)])) = Inr [(''title'', JStr ''Buy milk'')] \<and>
   r_post \<lparr>now = 20, new_id = ''id1'', db_down = None, scan = []\<rparr> []
       (Some (JObj [(''id'', JStr ''forged''), (''title'', JStr ''Buy milk''),
          (''createdAt'', JNum 0), (''admin'', JBool True)])) =
     ([\<lparr>item_id = ''id1'', title = ''Buy milk'', createdAt = 20\<rparr>],
      Sent \<lparr>status = 201, body = Created \<lparr>item_id = ''id1'', title = ''Buy milk'', createdAt = 20\<rparr>\<rparr>)"
  using extra_fields_stripped
    [of "[(''id'', JStr ''forged''), (''title'', JStr ''Buy milk''),
          (''createdAt'', JNum 0), (''admin'', JBool True)]" "''Buy milk''"
        "\<lparr>now = 20, new_id = ''id1'', db_down = None, scan = []\<rparr>" "[]"]
  by (simp add: item_create_title)

text \<open>
  C10. On a table that is not empty the seed script writes nothing. It changes the table
  only when the table is empty, and then to the single welcome item. Run on the empty
  table with the database reachable it stores exactly that item; a second run, in any
  environment, leaves the table as the first one left it, with one item, and when it
  can count it logs the one item present.
\<close>

theorem seed_idempotent:
  "(tbl \<noteq> [] \<longrightarrow> fst (main envc env tbl) = tbl) \<and>
   (fst (main envc env tbl) \<noteq> tbl \<longrightarrow>
      tbl = [] \<and>
      fst (main envc env tbl) =
        [\<lparr>item_id = new_id env, title = ''Welcome to ESDA'', createdAt = now env\<rparr>]) \<and>
   (db_down envc = None \<and> db_down env = None \<longrightarrow>
      main envc env [] =
        ([\<lparr>item_id = new_id env, title = ''Welcome to ESDA'', createdAt = now env\<rparr>], Seeded) \<and>
      fst (main envc' env' (fst (main envc env []))) = fst (main envc env []) \<and>
      length (fst (main envc' env' (fst (main envc env [])))) = 1 \<and>
      (db_down envc' = None \<longrightarrow>
         snd (main envc' env' (fst (main envc env []))) = AlreadyPresent 1))"
proof (intro conjI impI)
  assume "tbl \<noteq> []"
  then show "fst (main envc env tbl) = tbl" by (rule main_nonempty)
next
  assume c: "fst (main envc env tbl) \<noteq> tbl"
  from main_changes [OF c] show "tbl = []" by (rule conjunct1)
  from main_changes [OF c]
  show "fst (main envc env tbl) =
      [\<lparr>item_id = new_id env, title = ''Welcome to ESDA'', createdAt = now env\<rparr>]"
    by (rule conjunct2)
next
  assume up: "db_down envc = None \<and> db_down env = None"
  then show first: "main envc env [] =
      ([\<lparr>item_id = new_id env, title = ''Welcome to ESDA'', createdAt = now env\<rparr>], Seeded)"
    by (simp add: main_empty_up)
  then show second: "fst (main envc' env' (fst (main envc env []))) = fst (main envc env [])"
    by (simp add: main_nonempty)
  from first second show "length (fst (main envc' env' (fst (main envc env [])))) = 1"
    by simp
  assume "db_down envc' = None"
  with first show "snd (main envc' env' (fst (main envc env []))) = AlreadyPresent 1"
    by (simp add: main_def item_count_def)
qed

text \<open>
  C10 run twice from the empty table.
\<close>

theorem seed_idempotent_witness:
  "main \<lparr>now = 99, new_id = ''s0'', db_down = None, scan = []\<rparr>
        \<lparr>now = 100, new_id = ''s1'', db_down = None, scan = []\<rparr> [] =
     ([\<lparr>item_id = ''s1'', title = ''Welcome to ESDA'', createdAt = 100\<rparr>], Seeded) \<and>
   main \<lparr>now = 200, new_id = ''s2'', db_down = None, scan = []\<rparr>
        \<lparr>now = 201, new_id = ''s3'', db_down = None, scan = []\<rparr>
     [\<lparr>item_id = ''s1'', title = ''Welcome to ESDA'', createdAt = 100\<rparr>] =
     ([\<lparr>item_id = ''s1'', title = ''Welcome to ESDA'', createdAt = 100\<rparr>], AlreadyPresent 1)"
proof -
  let ?c1 = "\<lparr>now = 99, new_id = ''s0'', db_down = None, scan = []\<rparr>"
  let ?e1 = "\<lparr>now = 100, new_id = ''s1'', db_down = None, scan = []\<rparr>"
  let ?c2 = "\<lparr>now = 200, new_id = ''s2'', db_down = None, scan = []\<rparr>"
  let ?e2 = "\<lparr>now = 201, new_id = ''s3'', db_down = None, scan = []\<rparr>"
  let ?row = "\<lparr>item_id = ''s1'', title = ''Welcome to ESDA'', createdAt = 100\<rparr>"
  note inst = seed_idempotent [where tbl = "[?row]" and envc = ?c1 and env = ?e1
      and envc' = ?c2 and env' = ?e2]
  have first: "main ?c1 ?e1 [] = ([?row], Seeded)"
    using inst by simp
  have "fst (main ?c2 ?e2 (fst (main ?c1 ?e1 []))) = fst (main ?c1 ?e1 [])"
    and "snd (main ?c2 ?e2 (fst (main ?c1 ?e1 []))) = AlreadyPresent 1"
    using inst by auto
  then have "fst (main ?c2 ?e2 [?row]) = [?row]" and "snd (main ?c2 ?e2 [?row]) = AlreadyPresent 1"
    unfolding first by simp_all
  then have "main ?c2 ?e2 [?row] = ([?row], AlreadyPresent 1)"
    by (simp add: prod_eq_iff)
  with first show ?thesis by simp
qed

end
